theory Spec2Isabelle
  imports Main
begin

section \<open>The conversion script \<open>convert_to_onnx.py\<close>\<close>

text \<open>
  The script imports the model library, loads the checkpoint \<open>model.pt\<close>, exports the
  loaded model and prints what happened.  Its only logic is the order of these steps and
  the dispatch of the three \<open>except\<close> clauses, so the embedding keeps exactly that:
  exceptions are values with a class, the library is a parameter (the script treats it as a
  black box), and a run is a function from what the import delivers and the files of the
  working directory to the way the process ends together with the text printed, the files
  left behind and the library calls made.
\<close>

subsection \<open>Exceptions\<close>

text \<open>
  The part of Python's exception hierarchy the handlers can tell apart.  \<open>Derived n c\<close> is
  a class declared as \<open>class n(c)\<close>, so that every other class (\<open>RuntimeError\<close>, a
  library's own error classes) has a place.
\<close>

datatype py_class =
    BaseException
  | SystemExit
  | KeyboardInterrupt
  | Exception
  | OSError
  | FileNotFoundError
  | ImportError
  | ModuleNotFoundError
  | Derived string py_class

text \<open>The class itself followed by its base classes, nearest first.\<close>

fun mro :: "py_class \<Rightarrow> py_class list" where
  "mro BaseException = [BaseException]"
| "mro SystemExit = [SystemExit, BaseException]"
| "mro KeyboardInterrupt = [KeyboardInterrupt, BaseException]"
| "mro Exception = [Exception, BaseException]"
| "mro OSError = [OSError, Exception, BaseException]"
| "mro FileNotFoundError = [FileNotFoundError, OSError, Exception, BaseException]"
| "mro ImportError = [ImportError, Exception, BaseException]"
| "mro ModuleNotFoundError = [ModuleNotFoundError, ImportError, Exception, BaseException]"
| "mro (Derived n c) = Derived n c # mro c"

text \<open>
  An exception object: its class, and what \<open>print(e)\<close> gets from it before anything is
  written.  \<open>print(e)\<close> calls \<open>str(e)\<close>, which runs the object's own \<open>__str__\<close>, and encodes
  the text for the output stream.  \<open>Inr text\<close>: \<open>__str__\<close> returns \<open>text\<close> and the stream takes
  it.  \<open>Inl x\<close>: the exception \<open>x\<close> is raised instead, by \<open>__str__\<close> or by the encoder (a
  \<open>UnicodeEncodeError\<close> for a text with a character the stream's encoding lacks).
\<close>

datatype exn = Exn (cls: py_class) (str: "exn + string")

text \<open>The test an \<open>except C\<close> clause makes.\<close>

definition isinstance :: "exn \<Rightarrow> py_class \<Rightarrow> bool" where
  "isinstance e c = (c \<in> set (mro (cls e)))"

datatype 'a outcome = Raises exn | Returns 'a

subsection \<open>The working directory and the library\<close>

text \<open>The files of the working directory: name to content.\<close>

type_synonym files = "string \<rightharpoonup> string"

datatype pyval = PyStr string | PyInt int

type_synonym kwargs = "(string \<times> pyval) list"

text \<open>
  What \<open>from ultralytics import YOLO\<close> binds, for a model type \<open>'m\<close> of the library's own
  choosing.  \<open>YOLO\<close> is the constructor: it reads the checkpoint named by its argument and
  returns a model or raises.  \<open>export\<close> is the model's method: it receives the positional
  and the keyword arguments of the call, returns the path it reports or raises, and leaves
  the directory in the state given as second component (also when it raises: nothing is
  assumed about what a failing export has written).
\<close>

record 'm library =
  YOLO :: "string \<Rightarrow> files \<Rightarrow> 'm outcome"
  export :: "'m \<Rightarrow> pyval list \<Rightarrow> kwargs \<Rightarrow> files \<Rightarrow> string outcome \<times> files"

subsection \<open>The state of a run\<close>

datatype call = Call_YOLO string | Call_export "pyval list" kwargs

text \<open>
  \<open>stdout\<close> holds the text of each \<open>print\<close> call in order (\<open>print\<close> ends each with a
  newline), \<open>files\<close> the working directory, \<open>calls\<close> the library calls made so far.
\<close>

record state =
  stdout :: "string list"
  files :: files
  calls :: "call list"

definition start :: "files \<Rightarrow> state" where
  "start fs = \<lparr>stdout = [], files = fs, calls = []\<rparr>"

text \<open>
  \<open>print\<close> of a text.  The texts the script prints by this are its own ASCII constants,
  which every stream encoding has.
\<close>

definition print :: "string \<Rightarrow> state \<Rightarrow> state" where
  "print s st = st\<lparr>stdout := stdout st @ [s]\<rparr>"

text \<open>A library call is made on the current directory and is entered in \<open>calls\<close>.\<close>

definition call_YOLO :: "'m library \<Rightarrow> string \<Rightarrow> state \<Rightarrow> 'm outcome \<times> state" where
  "call_YOLO lib path st =
     (YOLO lib path (files st), st\<lparr>calls := calls st @ [Call_YOLO path]\<rparr>)"

definition call_export ::
  "'m library \<Rightarrow> 'm \<Rightarrow> pyval list \<Rightarrow> kwargs \<Rightarrow> state \<Rightarrow> string outcome \<times> state" where
  "call_export lib model args kw st =
     (case export lib model args kw (files st) of
        (r, fs) \<Rightarrow> (r, st\<lparr>files := fs, calls := calls st @ [Call_export args kw]\<rparr>))"

subsection \<open>The script\<close>

definition pytorch_model_file :: string where
  "pytorch_model_file = ''model.pt''"

definition onnx_model_file :: string where
  "onnx_model_file = ''stockmarket-pattern-detection-yolov8.onnx''"

text \<open>
  The body of the \<open>try\<close> statement (lines 11 to 24): the exception that left it, if any,
  and the state at that moment.  The value \<open>model.export\<close> returns is dropped, as in the
  source.
\<close>

definition try_body :: "'m library \<Rightarrow> state \<Rightarrow> exn option \<times> state" where
  "try_body lib st0 =
     (let st1 = print (''Loading PyTorch model: '' @ pytorch_model_file @ ''...'') st0 in
      case call_YOLO lib pytorch_model_file st1 of
        (Raises e, st2) \<Rightarrow> (Some e, st2)
      | (Returns model, st2) \<Rightarrow>
          (let st3 = print ''Model loaded successfully.'' st2;
               st4 = print (''Exporting model to ONNX: '' @ onnx_model_file @ ''...'') st3 in
           case call_export lib model []
                  [(''format'', PyStr ''onnx''), (''imgsz'', PyInt 640)] st4 of
             (Raises e, st5) \<Rightarrow> (Some e, st5)
           | (Returns r, st5) \<Rightarrow>
               (let st6 = print (CHR 0x0A # ''---'') st5;
                    st7 = print (''Success! '' @ [CHR 0x27] @ onnx_model_file @ [CHR 0x27]
                                   @ '' has been created.'') st6;
                    st8 = print ''You can now run your MATLAB backtester.'' st7;
                    st9 = print ''---'' st8
                in (None, st9))))"

text \<open>
  The three handlers (lines 26 to 41).  The first two print constants.  The third prints
  the exception object (line 40): when that raises, the exception leaves the handler after
  the header line, and the closing line is not printed.
\<close>

definition on_FileNotFoundError :: "state \<Rightarrow> state" where
  "on_FileNotFoundError st0 =
     (let st1 = print (CHR 0x0A # ''--- ERROR ---'') st0;
          st2 = print (''File not found: '' @ pytorch_model_file) st1;
          st3 = print ''Please download 'model.pt' from the GitHub repository'' st2;
          st4 = print ''and place it in the same folder as this script.'' st3
      in print ''---'' st4)"

definition on_ImportError :: "state \<Rightarrow> state" where
  "on_ImportError st0 =
     (let st1 = print (CHR 0x0A # ''--- ERROR ---'') st0;
          st2 = print ''The 'ultralytics' library is not found.'' st1;
          st3 = print ''Please install it by running:'' st2;
          st4 = print ''pip install ultralytics'' st3
      in print ''---'' st4)"

definition on_Exception :: "exn \<Rightarrow> state \<Rightarrow> exn option \<times> state" where
  "on_Exception e st0 =
     (let st1 = print (CHR 0x0A # ''--- AN ERROR OCCURRED ---'') st0 in
      case str e of
        Inl raised \<Rightarrow> (Some raised, st1)
      | Inr text \<Rightarrow>
          (let st2 = print text st1;
               st3 = print ''---'' st2
           in (None, st3)))"

text \<open>How the process ends: the module ran to its end, or an exception left it.\<close>

datatype completion = Returned | Uncaught exn

text \<open>
  The whole module.  Its argument is what the \<open>import\<close> statement of line 1 delivers:
  the library, or the exception the statement raises.  That statement stands before the
  \<open>try\<close>, so its exception meets no handler.  An exception leaving the \<open>try\<close> body goes to
  the first clause whose class it is an instance of, and on if there is none.  An
  exception raised inside a handler is outside the \<open>try\<close> and leaves the module.
\<close>

definition script :: "exn + 'm library \<Rightarrow> files \<Rightarrow> completion \<times> state" where
  "script imported fs =
     (case imported of
        Inl e \<Rightarrow> (Uncaught e, start fs)
      | Inr lib \<Rightarrow>
          (case try_body lib (start fs) of
             (None, st) \<Rightarrow> (Returned, st)
           | (Some e, st) \<Rightarrow>
               if isinstance e FileNotFoundError then (Returned, on_FileNotFoundError st)
               else if isinstance e ImportError then (Returned, on_ImportError st)
               else if isinstance e Exception then
                 (case on_Exception e st of
                    (None, st') \<Rightarrow> (Returned, st')
                  | (Some raised, st') \<Rightarrow> (Uncaught raised, st'))
               else (Uncaught e, st)))"

text \<open>
  The exit status the interpreter gives the process: 0 when the module ran to its end, 1
  when an exception was left unhandled (the interpreter then writes the traceback to the
  error stream).  Two classes are apart: an unhandled \<open>SystemExit\<close> ends the process with
  the status it carries, an unhandled \<open>KeyboardInterrupt\<close> as an interrupted process; those
  statuses are not modelled (\<open>None\<close>).
\<close>

definition exit_status :: "completion \<Rightarrow> nat option" where
  "exit_status t =
     (case t of
        Returned \<Rightarrow> Some 0
      | Uncaught e \<Rightarrow>
          if isinstance e SystemExit then None
          else if isinstance e KeyboardInterrupt then None
          else Some 1)"


subsection \<open>A library to run the script on\<close>

text \<open>
  A stand-in for the installed library, used to run \<open>script\<close> on concrete directories.  Its
  model remembers the path it was loaded from.  The constructor raises \<open>FileNotFoundError\<close>
  for a name that is not in the directory and an unpickling error for a file that is not a
  checkpoint.  \<open>export\<close> has no file name among its arguments: it writes next to the
  checkpoint, under the checkpoint's name with the suffix replaced by \<open>.onnx\<close>, replacing
  a file of that name, and returns this path.
\<close>

definition with_suffix_onnx :: "string \<Rightarrow> string" where
  "with_suffix_onnx path = rev (tl (dropWhile (\<lambda>c. c \<noteq> CHR ''.'') (rev path))) @ ''.onnx''"

definition demo_YOLO :: "string \<Rightarrow> files \<Rightarrow> string outcome" where
  "demo_YOLO path fs =
     (case fs path of
        None \<Rightarrow> Raises (Exn FileNotFoundError (Inr (''No such file or directory: '' @ path)))
      | Some content \<Rightarrow>
          if content = ''checkpoint'' then Returns path
          else Raises (Exn (Derived ''UnpicklingError'' (Derived ''PickleError'' Exception))
                         (Inr ''invalid load key'')))"

definition demo_export ::
  "string \<Rightarrow> pyval list \<Rightarrow> kwargs \<Rightarrow> files \<Rightarrow> string outcome \<times> files" where
  "demo_export model args kw fs =
     (Returns (with_suffix_onnx model), fs(with_suffix_onnx model \<mapsto> ''onnx graph''))"

definition demo_library :: "string library" where
  "demo_library = \<lparr>YOLO = demo_YOLO, export = demo_export\<rparr>"

text \<open>The same constructor with an \<open>export\<close> that raises and writes nothing.\<close>

definition failing_export ::
  "string \<Rightarrow> pyval list \<Rightarrow> kwargs \<Rightarrow> files \<Rightarrow> string outcome \<times> files" where
  "failing_export model args kw fs =
     (Raises (Exn (Derived ''RuntimeError'' Exception) (Inr ''export failed'')), fs)"

definition demo_library_failing_export :: "string library" where
  "demo_library_failing_export = \<lparr>YOLO = demo_YOLO, export = failing_export\<rparr>"

text \<open>An \<open>export\<close> that has written part of its output when it raises.\<close>

definition partial_export ::
  "string \<Rightarrow> pyval list \<Rightarrow> kwargs \<Rightarrow> files \<Rightarrow> string outcome \<times> files" where
  "partial_export model args kw fs =
     (Raises (Exn (Derived ''RuntimeError'' Exception) (Inr ''export failed'')),
      fs(with_suffix_onnx model \<mapsto> ''truncated onnx graph''))"

definition demo_library_partial_export :: "string library" where
  "demo_library_partial_export = \<lparr>YOLO = demo_YOLO, export = partial_export\<rparr>"

text \<open>An \<open>export\<close> that refuses to replace a file that is already there.\<close>

definition careful_export ::
  "string \<Rightarrow> pyval list \<Rightarrow> kwargs \<Rightarrow> files \<Rightarrow> string outcome \<times> files" where
  "careful_export model args kw fs =
     (case fs (with_suffix_onnx model) of
        None \<Rightarrow>
          (Returns (with_suffix_onnx model), fs(with_suffix_onnx model \<mapsto> ''onnx graph''))
      | Some content \<Rightarrow>
          (Raises (Exn (Derived ''FileExistsError'' OSError)
                     (Inr (''File exists: '' @ with_suffix_onnx model))), fs))"

definition demo_library_careful_export :: "string library" where
  "demo_library_careful_export = \<lparr>YOLO = demo_YOLO, export = careful_export\<rparr>"

text \<open>
  A constructor whose error cannot be printed: the stream's encoding lacks a character of
  its text, so \<open>print\<close> of it raises \<open>UnicodeEncodeError\<close>.
\<close>

definition unencodable_error :: exn where
  "unencodable_error =
     Exn (Derived ''RuntimeError'' Exception)
       (Inl (Exn (Derived ''UnicodeEncodeError''
                    (Derived ''UnicodeError'' (Derived ''ValueError'' Exception)))
               (Inr ''codec can't encode character'')))"

definition demo_library_unprintable_error :: "string library" where
  "demo_library_unprintable_error =
     \<lparr>YOLO = (\<lambda>path fs. Raises unencodable_error), export = demo_export\<rparr>"

section \<open>What a run does\<close>

lemmas run_defs = script_def try_body_def call_YOLO_def call_export_def print_def start_def
  on_FileNotFoundError_def on_ImportError_def on_Exception_def
  pytorch_model_file_def onnx_model_file_def Let_def

lemmas demo_defs = demo_library_def demo_YOLO_def demo_export_def with_suffix_onnx_def
  demo_library_failing_export_def failing_export_def
  demo_library_partial_export_def partial_export_def
  demo_library_careful_export_def careful_export_def
  demo_library_unprintable_error_def pytorch_model_file_def

subsection \<open>The three ways through the \<open>try\<close> body\<close>

lemma try_body_load_raises:
  assumes "YOLO lib pytorch_model_file fs = Raises e"
  shows "try_body lib (start fs) =
    (Some e, \<lparr>stdout = [''Loading PyTorch model: model.pt...''], files = fs,
              calls = [Call_YOLO ''model.pt'']\<rparr>)"
  using assms by (simp add: run_defs)

lemma try_body_export_raises:
  assumes "YOLO lib pytorch_model_file fs = Returns m"
    and "export lib m [] [(''format'', PyStr ''onnx''), (''imgsz'', PyInt 640)] fs
           = (Raises e, fs')"
  shows "try_body lib (start fs) =
    (Some e, \<lparr>stdout = [''Loading PyTorch model: model.pt...'',
                         ''Model loaded successfully.'',
                         ''Exporting model to ONNX: stockmarket-pattern-detection-yolov8.onnx...''],
              files = fs',
              calls = [Call_YOLO ''model.pt'',
                       Call_export [] [(''format'', PyStr ''onnx''), (''imgsz'', PyInt 640)]]\<rparr>)"
  using assms by (simp add: run_defs)

lemma try_body_returns:
  assumes "YOLO lib pytorch_model_file fs = Returns m"
    and "export lib m [] [(''format'', PyStr ''onnx''), (''imgsz'', PyInt 640)] fs
           = (Returns r, fs')"
  shows "try_body lib (start fs) =
    (None, \<lparr>stdout = [''Loading PyTorch model: model.pt...'',
                       ''Model loaded successfully.'',
                       ''Exporting model to ONNX: stockmarket-pattern-detection-yolov8.onnx...'',
                       CHR 0x0A # ''---'',
                       ''Success! 'stockmarket-pattern-detection-yolov8.onnx' has been created.'',
                       ''You can now run your MATLAB backtester.'',
                       ''---''],
            files = fs',
            calls = [Call_YOLO ''model.pt'',
                     Call_export [] [(''format'', PyStr ''onnx''), (''imgsz'', PyInt 640)]]\<rparr>)"
  using assms by (simp add: run_defs)

text \<open>What the third handler prints, and what leaves it.\<close>

lemma on_Exception_unfolded:
  "on_Exception e st =
     (case str e of
        Inl x \<Rightarrow> (Some x, st\<lparr>stdout := stdout st @ [CHR 0x0A # ''--- AN ERROR OCCURRED ---'']\<rparr>)
      | Inr text \<Rightarrow>
          (None, st\<lparr>stdout := stdout st
                       @ [CHR 0x0A # ''--- AN ERROR OCCURRED ---'', text, ''---'']\<rparr>))"
  by (simp add: on_Exception_def print_def split: sum.splits)

text \<open>The handlers print and do nothing else.\<close>

lemma handlers_only_print:
  "files (on_FileNotFoundError st) = files st" "calls (on_FileNotFoundError st) = calls st"
  "files (on_ImportError st) = files st" "calls (on_ImportError st) = calls st"
  "files (snd (on_Exception e st)) = files st" "calls (snd (on_Exception e st)) = calls st"
  by (simp_all add: on_FileNotFoundError_def on_ImportError_def on_Exception_unfolded print_def
        split: sum.splits)

text \<open>The end of a run whose \<open>try\<close> body was left by an exception.\<close>

lemma script_after_exception:
  assumes "try_body lib (start fs) = (Some e, st)"
  shows "script (Inr lib) fs =
     (if isinstance e FileNotFoundError then (Returned, on_FileNotFoundError st)
      else if isinstance e ImportError then (Returned, on_ImportError st)
      else if isinstance e Exception then
        (case str e of Inl x \<Rightarrow> Uncaught x | Inr text \<Rightarrow> Returned, snd (on_Exception e st))
      else (Uncaught e, st))"
proof (cases "str e")
  case (Inl x)
  with assms show ?thesis by (simp add: script_def on_Exception_unfolded)
next
  case (Inr shown)
  with assms show ?thesis by (simp add: script_def on_Exception_unfolded)
qed

lemma script_leaves_body_state:
  assumes "try_body lib (start fs) = (r, st)"
  shows "files (snd (script (Inr lib) fs)) = files st"
    and "calls (snd (script (Inr lib) fs)) = calls st"
proof -
  have "files (snd (script (Inr lib) fs)) = files st
      \<and> calls (snd (script (Inr lib) fs)) = calls st"
  proof (cases r)
    case None
    with assms show ?thesis by (simp add: script_def)
  next
    case (Some e)
    with assms have "try_body lib (start fs) = (Some e, st)" by simp
    from script_after_exception [OF this] show ?thesis
      by (simp add: handlers_only_print)
  qed
  then show "files (snd (script (Inr lib) fs)) = files st"
    and "calls (snd (script (Inr lib) fs)) = calls st"
    by simp_all
qed

text \<open>
  The script reads the directory through the library only: on two directories where the
  constructor and \<open>export\<close> answer alike it ends alike, prints the same and makes the same
  calls.
\<close>

lemma script_sees_directory_through_library:
  assumes "YOLO lib pytorch_model_file fs = YOLO lib pytorch_model_file fs'"
    and "\<And>m. fst (export lib m [] [(''format'', PyStr ''onnx''), (''imgsz'', PyInt 640)] fs)
             = fst (export lib m [] [(''format'', PyStr ''onnx''), (''imgsz'', PyInt 640)] fs')"
  shows "fst (script (Inr lib) fs) = fst (script (Inr lib) fs')"
    and "stdout (snd (script (Inr lib) fs)) = stdout (snd (script (Inr lib) fs'))"
    and "calls (snd (script (Inr lib) fs)) = calls (snd (script (Inr lib) fs'))"
proof -
  let ?kw = "[(''format'', PyStr ''onnx''), (''imgsz'', PyInt 640)]"
  have "fst (script (Inr lib) fs) = fst (script (Inr lib) fs')
      \<and> stdout (snd (script (Inr lib) fs)) = stdout (snd (script (Inr lib) fs'))
      \<and> calls (snd (script (Inr lib) fs)) = calls (snd (script (Inr lib) fs'))"
  proof (cases "YOLO lib pytorch_model_file fs")
    case (Raises e)
    with assms(1) have "YOLO lib pytorch_model_file fs' = Raises e" by simp
    then have there: "YOLO lib pytorch_model_file fs' = Raises e" .
    show ?thesis
      by (cases "str e")
        (simp_all add: script_after_exception [OF try_body_load_raises [OF Raises]]
           script_after_exception [OF try_body_load_raises [OF there]]
           on_FileNotFoundError_def on_ImportError_def on_Exception_unfolded print_def)
  next
    case (Returns m)
    with assms(1) have load': "YOLO lib pytorch_model_file fs' = Returns m" by simp
    obtain r d where ex: "export lib m [] ?kw fs = (r, d)" by (cases "export lib m [] ?kw fs")
    obtain r' d' where ex': "export lib m [] ?kw fs' = (r', d')"
      by (cases "export lib m [] ?kw fs'")
    from assms(2) [of m] ex ex' have same: "r' = r" by simp
    show ?thesis
    proof (cases r)
      case (Raises e)
      with ex ex' same
      have here: "export lib m [] ?kw fs = (Raises e, d)"
        and there: "export lib m [] ?kw fs' = (Raises e, d')"
        by simp_all
      show ?thesis
        by (cases "str e")
          (simp_all add:
             script_after_exception
               [OF try_body_export_raises [OF \<open>YOLO lib pytorch_model_file fs = Returns m\<close> here]]
             script_after_exception [OF try_body_export_raises [OF load' there]]
             on_FileNotFoundError_def on_ImportError_def on_Exception_unfolded print_def)
    next
      case (Returns p)
      with \<open>YOLO lib pytorch_model_file fs = Returns m\<close> load' ex ex' same show ?thesis
        by (simp add: script_def try_body_returns)
    qed
  qed
  then show "fst (script (Inr lib) fs) = fst (script (Inr lib) fs')"
    and "stdout (snd (script (Inr lib) fs)) = stdout (snd (script (Inr lib) fs'))"
    and "calls (snd (script (Inr lib) fs)) = calls (snd (script (Inr lib) fs'))"
    by simp_all
qed

text \<open>
  After a run that printed the success banner the directory is the one \<open>export\<close> left: the
  name of the file written is the library's choice.
\<close>

lemma files_after_success:
  assumes "YOLO lib pytorch_model_file fs = Returns m"
    and "export lib m [] [(''format'', PyStr ''onnx''), (''imgsz'', PyInt 640)] fs
           = (Returns r, fs')"
  shows "files (snd (script (Inr lib) fs)) = fs'"
  using assms by (simp add: script_def try_body_returns)

text \<open>An export that raises: the directory after the run is the one that call left.\<close>

lemma files_after_failed_export:
  assumes "YOLO lib pytorch_model_file fs = Returns m"
    and "export lib m [] [(''format'', PyStr ''onnx''), (''imgsz'', PyInt 640)] fs
           = (Raises e, fs')"
  shows "files (snd (script (Inr lib) fs)) = fs'"
  using script_leaves_body_state(1) [OF try_body_export_raises [OF assms]] by simp

section \<open>The claims\<close>

subsection \<open>The library is not installed\<close>

text \<open>
  C1 says that with the library absent the script prints the missing-dependency text
  (\<open>pip install ultralytics\<close>), whether or not \<open>model.pt\<close> exists.  The import stands before
  the \<open>try\<close>, so this is what the code does instead: whatever exception the import raises
  and whatever the directory holds, the exception leaves the module unhandled, nothing has
  been printed, and no library call has been made.
\<close>

theorem missing_library_prints_nothing:
  "script (Inl e) fs = (Uncaught e, \<lparr>stdout = [], files = fs, calls = []\<rparr>)"
  by (simp add: script_def start_def)

text \<open>
  C6 says that on each failure path, the missing dependency among them, the process ends
  without a non-zero exit status.  With the library absent the import raises
  \<open>ModuleNotFoundError\<close>, which leaves the module unhandled: the exit status is 1.
\<close>

theorem missing_library_exit_status:
  "exit_status (fst (script (Inl (Exn ModuleNotFoundError msg)) fs)) = Some 1"
  by (simp add: script_def exit_status_def isinstance_def)

subsection \<open>The name of the file written\<close>

text \<open>
  C2 says that a run on a valid checkpoint with the library installed creates the file
  \<open>stockmarket-pattern-detection-yolov8.onnx\<close> and prints the banner naming it.  The script
  never hands that name to \<open>export\<close>.  With a library whose \<open>export\<close> writes next to the
  checkpoint, the run on a directory holding a valid \<open>model.pt\<close> returns, prints the banner
  naming \<open>stockmarket-pattern-detection-yolov8.onnx\<close>, and leaves a directory in which the
  new file is \<open>model.onnx\<close> and no file has the name printed.
\<close>

theorem banner_names_a_file_not_written:
  "script (Inr demo_library) [''model.pt'' \<mapsto> ''checkpoint''] =
     (Returned,
      \<lparr>stdout = [''Loading PyTorch model: model.pt...'',
                 ''Model loaded successfully.'',
                 ''Exporting model to ONNX: stockmarket-pattern-detection-yolov8.onnx...'',
                 CHR 0x0A # ''---'',
                 ''Success! 'stockmarket-pattern-detection-yolov8.onnx' has been created.'',
                 ''You can now run your MATLAB backtester.'',
                 ''---''],
       files = [''model.pt'' \<mapsto> ''checkpoint'', ''model.onnx'' \<mapsto> ''onnx graph''],
       calls = [Call_YOLO ''model.pt'',
                Call_export [] [(''format'', PyStr ''onnx''), (''imgsz'', PyInt 640)]]\<rparr>)
   \<and> files (snd (script (Inr demo_library) [''model.pt'' \<mapsto> ''checkpoint''])) onnx_model_file
       = None"
proof -
  have load: "YOLO demo_library pytorch_model_file [''model.pt'' \<mapsto> ''checkpoint'']
                = Returns ''model.pt''"
    by (simp add: demo_defs)
  have exp: "export demo_library ''model.pt'' []
               [(''format'', PyStr ''onnx''), (''imgsz'', PyInt 640)]
               [''model.pt'' \<mapsto> ''checkpoint'']
             = (Returns ''model.onnx'',
                [''model.pt'' \<mapsto> ''checkpoint'', ''model.onnx'' \<mapsto> ''onnx graph''])"
    by (simp add: demo_defs)
  show ?thesis
    by (simp add: script_def try_body_returns [OF load exp] onnx_model_file_def)
qed

subsection \<open>The checkpoint is missing\<close>

text \<open>
  C3: when the constructor raises the missing-file error for \<open>model.pt\<close>, the script prints
  the missing-input text after the progress line, returns, has made no \<open>export\<close> call, and
  leaves the directory as it found it: no output file is created.
\<close>

theorem missing_checkpoint_reported:
  assumes "YOLO lib pytorch_model_file fs = Raises e"
    and "isinstance e FileNotFoundError"
  shows "script (Inr lib) fs =
     (Returned,
      \<lparr>stdout = [''Loading PyTorch model: model.pt...'',
                 CHR 0x0A # ''--- ERROR ---'',
                 ''File not found: model.pt'',
                 ''Please download 'model.pt' from the GitHub repository'',
                 ''and place it in the same folder as this script.'',
                 ''---''],
       files = fs,
       calls = [Call_YOLO ''model.pt'']\<rparr>)"
  using assms(2)
  by (simp add: script_def try_body_load_raises [OF assms(1)] on_FileNotFoundError_def
        print_def pytorch_model_file_def)

theorem missing_checkpoint_reported_witness:
  "YOLO demo_library pytorch_model_file Map.empty
     = Raises (Exn FileNotFoundError (Inr ''No such file or directory: model.pt''))
   \<and> isinstance (Exn FileNotFoundError (Inr ''No such file or directory: model.pt'')) FileNotFoundError
   \<and> script (Inr demo_library) Map.empty =
     (Returned,
      \<lparr>stdout = [''Loading PyTorch model: model.pt...'',
                 CHR 0x0A # ''--- ERROR ---'',
                 ''File not found: model.pt'',
                 ''Please download 'model.pt' from the GitHub repository'',
                 ''and place it in the same folder as this script.'',
                 ''---''],
       files = Map.empty,
       calls = [Call_YOLO ''model.pt'']\<rparr>)"
proof -
  have load: "YOLO demo_library pytorch_model_file Map.empty
                = Raises (Exn FileNotFoundError (Inr ''No such file or directory: model.pt''))"
    by (simp add: demo_defs)
  have inst: "isinstance (Exn FileNotFoundError (Inr ''No such file or directory: model.pt''))
                FileNotFoundError"
    by (simp add: isinstance_def)
  from load inst missing_checkpoint_reported [OF load inst] show ?thesis by simp
qed

subsection \<open>Any other exception\<close>

text \<open>
  C4 says that an exception other than a missing-file or import error, raised during load
  or export, makes the script print the header, the exception's text and no more, and
  that no output file is created.  Two runs where this fails.  With an \<open>export\<close> that has
  written \<open>model.onnx\<close> when it raises, the script prints the diagnostic and returns, and the
  file is there after the run.  With an error whose text the output stream cannot encode,
  \<open>print(e)\<close> raises inside the handler: only the header is printed and the second
  exception leaves the script.
\<close>

theorem unclassified_exception_counterexample:
  "script (Inr demo_library_partial_export) [''model.pt'' \<mapsto> ''checkpoint''] =
     (Returned,
      \<lparr>stdout = [''Loading PyTorch model: model.pt...'',
                 ''Model loaded successfully.'',
                 ''Exporting model to ONNX: stockmarket-pattern-detection-yolov8.onnx...'',
                 CHR 0x0A # ''--- AN ERROR OCCURRED ---'',
                 ''export failed'',
                 ''---''],
       files = [''model.pt'' \<mapsto> ''checkpoint'', ''model.onnx'' \<mapsto> ''truncated onnx graph''],
       calls = [Call_YOLO ''model.pt'',
                Call_export [] [(''format'', PyStr ''onnx''), (''imgsz'', PyInt 640)]]\<rparr>)
   \<and> script (Inr demo_library_unprintable_error) [''model.pt'' \<mapsto> ''checkpoint''] =
     (Uncaught (Exn (Derived ''UnicodeEncodeError''
                       (Derived ''UnicodeError'' (Derived ''ValueError'' Exception)))
                  (Inr ''codec can't encode character'')),
      \<lparr>stdout = [''Loading PyTorch model: model.pt...'',
                 CHR 0x0A # ''--- AN ERROR OCCURRED ---''],
       files = [''model.pt'' \<mapsto> ''checkpoint''],
       calls = [Call_YOLO ''model.pt'']\<rparr>)"
proof -
  let ?kw = "[(''format'', PyStr ''onnx''), (''imgsz'', PyInt 640)]"
  let ?fs = "[''model.pt'' \<mapsto> ''checkpoint'']"
  have load: "YOLO demo_library_partial_export pytorch_model_file ?fs = Returns ''model.pt''"
    by (simp add: demo_defs)
  have exp: "export demo_library_partial_export ''model.pt'' [] ?kw ?fs
               = (Raises (Exn (Derived ''RuntimeError'' Exception) (Inr ''export failed'')),
                  [''model.pt'' \<mapsto> ''checkpoint'', ''model.onnx'' \<mapsto> ''truncated onnx graph''])"
    by (simp add: demo_defs)
  have load2: "YOLO demo_library_unprintable_error pytorch_model_file ?fs
                 = Raises unencodable_error"
    by (simp add: demo_defs)
  have first: "script (Inr demo_library_partial_export) ?fs =
     (Returned,
      \<lparr>stdout = [''Loading PyTorch model: model.pt...'',
                 ''Model loaded successfully.'',
                 ''Exporting model to ONNX: stockmarket-pattern-detection-yolov8.onnx...'',
                 CHR 0x0A # ''--- AN ERROR OCCURRED ---'',
                 ''export failed'',
                 ''---''],
       files = [''model.pt'' \<mapsto> ''checkpoint'', ''model.onnx'' \<mapsto> ''truncated onnx graph''],
       calls = [Call_YOLO ''model.pt'', Call_export [] ?kw]\<rparr>)"
    by (simp add: script_after_exception [OF try_body_export_raises [OF load exp]]
          isinstance_def on_Exception_unfolded)
  have second: "script (Inr demo_library_unprintable_error) ?fs =
     (Uncaught (Exn (Derived ''UnicodeEncodeError''
                       (Derived ''UnicodeError'' (Derived ''ValueError'' Exception)))
                  (Inr ''codec can't encode character'')),
      \<lparr>stdout = [''Loading PyTorch model: model.pt...'',
                 CHR 0x0A # ''--- AN ERROR OCCURRED ---''],
       files = ?fs,
       calls = [Call_YOLO ''model.pt'']\<rparr>)"
    by (simp add: script_after_exception [OF try_body_load_raises [OF load2]]
          isinstance_def on_Exception_unfolded unencodable_error_def)
  from first second show ?thesis by (rule conjI)
qed

text \<open>
  C4 as the code has it.  Let an exception \<open>e\<close> of class \<open>Exception\<close>, neither a missing-file
  nor an import error, be raised by the constructor or by \<open>export\<close>, and let \<open>fs'\<close> be the
  directory at that moment: \<open>fs\<close> itself when the constructor raised, what the failing
  \<open>export\<close> left otherwise.  Then the script prints the header \<open>--- AN ERROR OCCURRED ---\<close>
  after the progress lines.  When \<open>print(e)\<close> yields the text, the text and the closing line
  follow and the script returns; when \<open>print(e)\<close> raises, nothing follows and that exception
  leaves the script.  The script writes no file of its own: the directory after the run
  is \<open>fs'\<close>.
\<close>

theorem unclassified_exception_reported:
  assumes "isinstance e Exception"
    and "\<not> isinstance e FileNotFoundError"
    and "\<not> isinstance e ImportError"
    and "(YOLO lib pytorch_model_file fs = Raises e \<and> fs' = fs)
         \<or> (\<exists>m. YOLO lib pytorch_model_file fs = Returns m
                \<and> export lib m [] [(''format'', PyStr ''onnx''), (''imgsz'', PyInt 640)] fs
                    = (Raises e, fs'))"
  shows "fst (script (Inr lib) fs) = (case str e of Inl x \<Rightarrow> Uncaught x | Inr shown \<Rightarrow> Returned)
       \<and> stdout (snd (script (Inr lib) fs)) =
           (case YOLO lib pytorch_model_file fs of
              Raises x \<Rightarrow> [''Loading PyTorch model: model.pt...'']
            | Returns m \<Rightarrow>
                [''Loading PyTorch model: model.pt...'',
                 ''Model loaded successfully.'',
                 ''Exporting model to ONNX: stockmarket-pattern-detection-yolov8.onnx...''])
           @ (CHR 0x0A # ''--- AN ERROR OCCURRED ---'')
           # (case str e of Inl x \<Rightarrow> [] | Inr shown \<Rightarrow> [shown, ''---''])
       \<and> files (snd (script (Inr lib) fs)) = fs'"
  using assms(4)
proof
  assume "YOLO lib pytorch_model_file fs = Raises e \<and> fs' = fs"
  then have load: "YOLO lib pytorch_model_file fs = Raises e" and same: "fs' = fs"
    by simp_all
  from assms(1-3) same show ?thesis
    by (cases "str e")
      (simp_all add: script_after_exception [OF try_body_load_raises [OF load]] load
         on_Exception_unfolded)
next
  assume "\<exists>m. YOLO lib pytorch_model_file fs = Returns m
              \<and> export lib m [] [(''format'', PyStr ''onnx''), (''imgsz'', PyInt 640)] fs
                  = (Raises e, fs')"
  then obtain m where load: "YOLO lib pytorch_model_file fs = Returns m"
    and exp: "export lib m [] [(''format'', PyStr ''onnx''), (''imgsz'', PyInt 640)] fs
                = (Raises e, fs')"
    by blast
  from assms(1-3) show ?thesis
    by (cases "str e")
      (simp_all add: script_after_exception [OF try_body_export_raises [OF load exp]] load
         on_Exception_unfolded)
qed

text \<open>
  Three runs of it: a \<open>model.pt\<close> that is not a checkpoint, where the constructor raises;
  a valid one with an \<open>export\<close> that raises after writing; and an error that cannot be
  printed.
\<close>

theorem unclassified_exception_reported_witness:
  "stdout (snd (script (Inr demo_library) [''model.pt'' \<mapsto> ''not a checkpoint''])) =
     [''Loading PyTorch model: model.pt...'',
      CHR 0x0A # ''--- AN ERROR OCCURRED ---'',
      ''invalid load key'',
      ''---'']
   \<and> files (snd (script (Inr demo_library) [''model.pt'' \<mapsto> ''not a checkpoint'']))
       = [''model.pt'' \<mapsto> ''not a checkpoint'']
   \<and> fst (script (Inr demo_library) [''model.pt'' \<mapsto> ''not a checkpoint'']) = Returned
   \<and> stdout (snd (script (Inr demo_library_partial_export) [''model.pt'' \<mapsto> ''checkpoint''])) =
     [''Loading PyTorch model: model.pt...'',
      ''Model loaded successfully.'',
      ''Exporting model to ONNX: stockmarket-pattern-detection-yolov8.onnx...'',
      CHR 0x0A # ''--- AN ERROR OCCURRED ---'',
      ''export failed'',
      ''---'']
   \<and> files (snd (script (Inr demo_library_partial_export) [''model.pt'' \<mapsto> ''checkpoint'']))
       = [''model.pt'' \<mapsto> ''checkpoint'', ''model.onnx'' \<mapsto> ''truncated onnx graph'']
   \<and> fst (script (Inr demo_library_partial_export) [''model.pt'' \<mapsto> ''checkpoint''])
       = Returned
   \<and> stdout (snd (script (Inr demo_library_unprintable_error) Map.empty)) =
     [''Loading PyTorch model: model.pt...'',
      CHR 0x0A # ''--- AN ERROR OCCURRED ---'']
   \<and> fst (script (Inr demo_library_unprintable_error) Map.empty) =
     Uncaught (Exn (Derived ''UnicodeEncodeError''
                      (Derived ''UnicodeError'' (Derived ''ValueError'' Exception)))
                 (Inr ''codec can't encode character''))"
proof -
  let ?kw = "[(''format'', PyStr ''onnx''), (''imgsz'', PyInt 640)]"
  let ?bad = "Exn (Derived ''UnpicklingError'' (Derived ''PickleError'' Exception))
                (Inr ''invalid load key'')"
  let ?rt = "Exn (Derived ''RuntimeError'' Exception) (Inr ''export failed'')"
  let ?fs = "[''model.pt'' \<mapsto> ''checkpoint'']"
  let ?fs' = "[''model.pt'' \<mapsto> ''checkpoint'', ''model.onnx'' \<mapsto> ''truncated onnx graph'']"
  let ?junk = "[''model.pt'' \<mapsto> ''not a checkpoint'']"
  have bad_class: "isinstance ?bad Exception" "\<not> isinstance ?bad FileNotFoundError"
    "\<not> isinstance ?bad ImportError"
    by (simp_all add: isinstance_def)
  have rt_class: "isinstance ?rt Exception" "\<not> isinstance ?rt FileNotFoundError"
    "\<not> isinstance ?rt ImportError"
    by (simp_all add: isinstance_def)
  have un_class: "isinstance unencodable_error Exception"
    "\<not> isinstance unencodable_error FileNotFoundError"
    "\<not> isinstance unencodable_error ImportError"
    by (simp_all add: isinstance_def unencodable_error_def)
  have load_bad: "YOLO demo_library pytorch_model_file ?junk = Raises ?bad"
    by (simp add: demo_defs)
  have load_ok: "YOLO demo_library_partial_export pytorch_model_file ?fs = Returns ''model.pt''"
    by (simp add: demo_defs)
  have exp_fails: "export demo_library_partial_export ''model.pt'' [] ?kw ?fs = (Raises ?rt, ?fs')"
    by (simp add: demo_defs)
  have load_un: "YOLO demo_library_unprintable_error pytorch_model_file Map.empty
                   = Raises unencodable_error"
    by (simp add: demo_defs)
  from load_bad
  have first: "(YOLO demo_library pytorch_model_file ?junk = Raises ?bad \<and> ?junk = ?junk)
     \<or> (\<exists>m. YOLO demo_library pytorch_model_file ?junk = Returns m
            \<and> export demo_library m [] ?kw ?junk = (Raises ?bad, ?junk))"
    by simp
  from load_ok exp_fails
  have second: "(YOLO demo_library_partial_export pytorch_model_file ?fs = Raises ?rt \<and> ?fs' = ?fs)
     \<or> (\<exists>m. YOLO demo_library_partial_export pytorch_model_file ?fs = Returns m
            \<and> export demo_library_partial_export m [] ?kw ?fs = (Raises ?rt, ?fs'))"
    by blast
  from load_un
  have third: "(YOLO demo_library_unprintable_error pytorch_model_file Map.empty
                  = Raises unencodable_error \<and> Map.empty = (Map.empty :: files))
     \<or> (\<exists>m. YOLO demo_library_unprintable_error pytorch_model_file Map.empty = Returns m
            \<and> export demo_library_unprintable_error m [] ?kw Map.empty
                = (Raises unencodable_error, Map.empty))"
    by simp
  from unclassified_exception_reported [OF bad_class first]
       unclassified_exception_reported [OF rt_class second]
       unclassified_exception_reported [OF un_class third]
  show ?thesis by (simp add: load_bad load_ok load_un unencodable_error_def)
qed

subsection \<open>The calls the script makes\<close>

text \<open>
  C5: a run that reaches the export step (the constructor returned a model \<open>m\<close>) has made
  two library calls, the constructor on \<open>model.pt\<close> and then \<open>export\<close> with no positional
  argument and the keyword arguments \<open>format='onnx'\<close> and \<open>imgsz=640\<close> and no other: no
  output file name is passed.  The call is the library's \<open>export\<close> on \<open>m\<close> with these
  arguments, on the directory as the run found it: the directory after the run is the one
  this call left, and the \<open>try\<close> body is left by the exception this call raised, or by
  none when it returned.
\<close>

theorem export_called_with_onnx_and_640:
  assumes "YOLO lib pytorch_model_file fs = Returns m"
  shows "calls (snd (script (Inr lib) fs)) =
           [Call_YOLO ''model.pt'',
            Call_export [] [(''format'', PyStr ''onnx''), (''imgsz'', PyInt 640)]]
       \<and> files (snd (script (Inr lib) fs)) =
           snd (export lib m [] [(''format'', PyStr ''onnx''), (''imgsz'', PyInt 640)] fs)
       \<and> fst (try_body lib (start fs)) =
           (case fst (export lib m [] [(''format'', PyStr ''onnx''), (''imgsz'', PyInt 640)] fs) of
              Raises e \<Rightarrow> Some e
            | Returns r \<Rightarrow> None)"
proof -
  obtain r fs' where exp: "export lib m [] [(''format'', PyStr ''onnx''), (''imgsz'', PyInt 640)] fs
                             = (r, fs')"
    by (cases "export lib m [] [(''format'', PyStr ''onnx''), (''imgsz'', PyInt 640)] fs")
  show ?thesis
  proof (cases r)
    case (Raises e)
    with exp have exp': "export lib m [] [(''format'', PyStr ''onnx''), (''imgsz'', PyInt 640)] fs
                           = (Raises e, fs')"
      by simp
    note body = try_body_export_raises [OF assms exp']
    from script_leaves_body_state [OF body] show ?thesis
      by (simp add: body exp')
  next
    case (Returns p)
    with exp have exp': "export lib m [] [(''format'', PyStr ''onnx''), (''imgsz'', PyInt 640)] fs
                           = (Returns p, fs')"
      by simp
    note body = try_body_returns [OF assms exp']
    from script_leaves_body_state [OF body] show ?thesis
      by (simp add: body exp')
  qed
qed

theorem export_called_with_onnx_and_640_witness:
  "YOLO demo_library pytorch_model_file [''model.pt'' \<mapsto> ''checkpoint''] = Returns ''model.pt''
   \<and> calls (snd (script (Inr demo_library) [''model.pt'' \<mapsto> ''checkpoint''])) =
           [Call_YOLO ''model.pt'',
            Call_export [] [(''format'', PyStr ''onnx''), (''imgsz'', PyInt 640)]]
   \<and> files (snd (script (Inr demo_library) [''model.pt'' \<mapsto> ''checkpoint''])) =
           [''model.pt'' \<mapsto> ''checkpoint'', ''model.onnx'' \<mapsto> ''onnx graph'']
   \<and> fst (try_body demo_library (start [''model.pt'' \<mapsto> ''checkpoint''])) = None"
proof -
  have load: "YOLO demo_library pytorch_model_file [''model.pt'' \<mapsto> ''checkpoint'']
                = Returns ''model.pt''"
    by (simp add: demo_defs)
  have exp: "export demo_library ''model.pt'' []
               [(''format'', PyStr ''onnx''), (''imgsz'', PyInt 640)]
               [''model.pt'' \<mapsto> ''checkpoint'']
             = (Returns ''model.onnx'',
                [''model.pt'' \<mapsto> ''checkpoint'', ''model.onnx'' \<mapsto> ''onnx graph''])"
    by (simp add: demo_defs)
  from load export_called_with_onnx_and_640 [OF load] show ?thesis by (simp add: exp)
qed

text \<open>
  C7: the library calls of any run, in order.  When the import fails there is none.
  Otherwise the constructor is called first; \<open>export\<close> is called second, and only when the
  constructor returned a model, on that model and on the directory as it then is.  A run
  is a value of the total function \<open>script\<close>: with library calls that come back, it ends.
\<close>

theorem load_then_export:
  "calls (snd (script imported fs)) =
     (case imported of
        Inl e \<Rightarrow> []
      | Inr lib \<Rightarrow>
          (case YOLO lib pytorch_model_file fs of
             Raises e \<Rightarrow> [Call_YOLO pytorch_model_file]
           | Returns m \<Rightarrow>
               [Call_YOLO pytorch_model_file,
                Call_export [] [(''format'', PyStr ''onnx''), (''imgsz'', PyInt 640)]]))
   \<and> files (snd (script imported fs)) =
     (case imported of
        Inl e \<Rightarrow> fs
      | Inr lib \<Rightarrow>
          (case YOLO lib pytorch_model_file fs of
             Raises e \<Rightarrow> fs
           | Returns m \<Rightarrow>
               snd (export lib m [] [(''format'', PyStr ''onnx''), (''imgsz'', PyInt 640)] fs)))"
proof (cases imported)
  case (Inl e)
  then show ?thesis by (simp add: script_def start_def)
next
  case (Inr lib)
  show ?thesis
  proof (cases "YOLO lib pytorch_model_file fs")
    case (Raises e)
    from script_leaves_body_state [OF try_body_load_raises [OF Raises]] Inr Raises
    show ?thesis by (simp add: pytorch_model_file_def)
  next
    case (Returns m)
    obtain r fs' where exp:
      "export lib m [] [(''format'', PyStr ''onnx''), (''imgsz'', PyInt 640)] fs = (r, fs')"
      by (cases "export lib m [] [(''format'', PyStr ''onnx''), (''imgsz'', PyInt 640)] fs")
    show ?thesis
    proof (cases r)
      case (Raises e)
      with exp have exp':
        "export lib m [] [(''format'', PyStr ''onnx''), (''imgsz'', PyInt 640)] fs
           = (Raises e, fs')"
        by simp
      from script_leaves_body_state [OF try_body_export_raises [OF Returns exp']] Inr exp'
        \<open>YOLO lib pytorch_model_file fs = Returns m\<close>
      show ?thesis by (simp add: pytorch_model_file_def)
    next
      case (Returns p)
      with exp have exp':
        "export lib m [] [(''format'', PyStr ''onnx''), (''imgsz'', PyInt 640)] fs
           = (Returns p, fs')"
        by simp
      from script_leaves_body_state
             [OF try_body_returns [OF \<open>YOLO lib pytorch_model_file fs = Returns m\<close> exp']]
        Inr exp' \<open>YOLO lib pytorch_model_file fs = Returns m\<close>
      show ?thesis by (simp add: pytorch_model_file_def)
    qed
  qed
qed

subsection \<open>Running twice\<close>




subsection \<open>Exceptions and the handlers\<close>

text \<open>
  C9 says that no exception of class \<open>Exception\<close> raised in the \<open>try\<close> body gets out, so
  that the script always runs to its end and returns.  The exception is caught, but the
  third handler prints it, and that can raise.  Here the constructor raises a
  \<open>RuntimeError\<close> whose text the stream cannot encode: the handler prints the header,
  \<open>print(e)\<close> raises \<open>UnicodeEncodeError\<close>, and the script ends with that exception unhandled,
  exit status 1.
\<close>

theorem ordinary_exception_counterexample:
  "try_body demo_library_unprintable_error (start Map.empty) =
     (Some unencodable_error,
      \<lparr>stdout = [''Loading PyTorch model: model.pt...''],
       files = Map.empty,
       calls = [Call_YOLO ''model.pt'']\<rparr>)
   \<and> isinstance unencodable_error Exception
   \<and> fst (script (Inr demo_library_unprintable_error) Map.empty) =
       Uncaught (Exn (Derived ''UnicodeEncodeError''
                        (Derived ''UnicodeError'' (Derived ''ValueError'' Exception)))
                   (Inr ''codec can't encode character''))
   \<and> exit_status (fst (script (Inr demo_library_unprintable_error) Map.empty)) = Some 1"
proof -
  have load: "YOLO demo_library_unprintable_error pytorch_model_file Map.empty
                = Raises unencodable_error"
    by (simp add: demo_defs)
  note body = try_body_load_raises [OF load]
  have inst: "isinstance unencodable_error Exception"
    by (simp add: isinstance_def unencodable_error_def)
  have ends: "fst (script (Inr demo_library_unprintable_error) Map.empty) =
       Uncaught (Exn (Derived ''UnicodeEncodeError''
                        (Derived ''UnicodeError'' (Derived ''ValueError'' Exception)))
                   (Inr ''codec can't encode character''))"
    by (simp add: script_after_exception [OF body] isinstance_def unencodable_error_def)
  have status: "exit_status (fst (script (Inr demo_library_unprintable_error) Map.empty))
                  = Some 1"
    unfolding ends by (simp add: exit_status_def isinstance_def)
  from body inst ends status show ?thesis by simp
qed

text \<open>
  C9 as the code has it.  An exception \<open>e\<close> of class \<open>Exception\<close> that leaves the \<open>try\<close> body
  is caught by the first of the three handlers whose class it is an instance of.  After
  the missing-file and the import handler the script returns.  After the generic handler
  it returns when \<open>print(e)\<close> yields the text; when \<open>print(e)\<close> raises, the exception it raises
  leaves the script.
\<close>

theorem ordinary_exception_meets_handler:
  assumes "try_body lib (start fs) = (Some e, st)"
    and "isinstance e Exception"
  shows "script (Inr lib) fs =
     (if isinstance e FileNotFoundError then (Returned, on_FileNotFoundError st)
      else if isinstance e ImportError then (Returned, on_ImportError st)
      else (case str e of Inl x \<Rightarrow> Uncaught x | Inr shown \<Rightarrow> Returned,
            snd (on_Exception e st)))"
  using assms(2) by (simp add: script_after_exception [OF assms(1)])

theorem ordinary_exception_meets_handler_witness:
  "try_body demo_library (start [''model.pt'' \<mapsto> ''not a checkpoint'']) =
     (Some (Exn (Derived ''UnpicklingError'' (Derived ''PickleError'' Exception))
              (Inr ''invalid load key'')),
      \<lparr>stdout = [''Loading PyTorch model: model.pt...''],
       files = [''model.pt'' \<mapsto> ''not a checkpoint''],
       calls = [Call_YOLO ''model.pt'']\<rparr>)
   \<and> isinstance (Exn (Derived ''UnpicklingError'' (Derived ''PickleError'' Exception))
                  (Inr ''invalid load key'')) Exception
   \<and> script (Inr demo_library) [''model.pt'' \<mapsto> ''not a checkpoint''] =
     (Returned,
      \<lparr>stdout = [''Loading PyTorch model: model.pt...'',
                 CHR 0x0A # ''--- AN ERROR OCCURRED ---'',
                 ''invalid load key'',
                 ''---''],
       files = [''model.pt'' \<mapsto> ''not a checkpoint''],
       calls = [Call_YOLO ''model.pt'']\<rparr>)"
proof -
  let ?bad = "Exn (Derived ''UnpicklingError'' (Derived ''PickleError'' Exception))
                (Inr ''invalid load key'')"
  let ?st = "\<lparr>stdout = [''Loading PyTorch model: model.pt...''],
              files = [''model.pt'' \<mapsto> ''not a checkpoint''],
              calls = [Call_YOLO ''model.pt'']\<rparr>"
  have load: "YOLO demo_library pytorch_model_file [''model.pt'' \<mapsto> ''not a checkpoint'']
                = Raises ?bad"
    by (simp add: demo_defs)
  have body: "try_body demo_library (start [''model.pt'' \<mapsto> ''not a checkpoint''])
                = (Some ?bad, ?st)"
    by (rule try_body_load_raises [OF load])
  have inst: "isinstance ?bad Exception"
    by (simp add: isinstance_def)
  from ordinary_exception_meets_handler [OF body inst]
  have "script (Inr demo_library) [''model.pt'' \<mapsto> ''not a checkpoint''] =
     (Returned,
      \<lparr>stdout = [''Loading PyTorch model: model.pt...'',
                 CHR 0x0A # ''--- AN ERROR OCCURRED ---'',
                 ''invalid load key'',
                 ''---''],
       files = [''model.pt'' \<mapsto> ''not a checkpoint''],
       calls = [Call_YOLO ''model.pt'']\<rparr>)"
    by (simp add: isinstance_def on_Exception_unfolded)
  with body inst show ?thesis by simp
qed

subsection \<open>The success banner\<close>

text \<open>
  C10: on a successful run (the constructor and \<open>export\<close> both return) the text printed is
  fixed.  The banner line names \<open>stockmarket-pattern-detection-yolov8.onnx\<close> whatever path
  \<open>r\<close> the export call returned and whatever directory \<open>fs'\<close> it left.
\<close>

theorem banner_names_the_constant:
  assumes "YOLO lib pytorch_model_file fs = Returns m"
    and "export lib m [] [(''format'', PyStr ''onnx''), (''imgsz'', PyInt 640)] fs
           = (Returns r, fs')"
  shows "stdout (snd (script (Inr lib) fs)) =
           [''Loading PyTorch model: model.pt...'',
            ''Model loaded successfully.'',
            ''Exporting model to ONNX: '' @ onnx_model_file @ ''...'',
            CHR 0x0A # ''---'',
            ''Success! 'stockmarket-pattern-detection-yolov8.onnx' has been created.'',
            ''You can now run your MATLAB backtester.'',
            ''---'']"
  by (simp add: script_def try_body_returns [OF assms] onnx_model_file_def)

theorem banner_names_the_constant_witness:
  "export demo_library ''model.pt'' [] [(''format'', PyStr ''onnx''), (''imgsz'', PyInt 640)]
     [''model.pt'' \<mapsto> ''checkpoint'']
   = (Returns ''model.onnx'',
      [''model.pt'' \<mapsto> ''checkpoint'', ''model.onnx'' \<mapsto> ''onnx graph''])
   \<and> stdout (snd (script (Inr demo_library) [''model.pt'' \<mapsto> ''checkpoint''])) ! 4
       = ''Success! 'stockmarket-pattern-detection-yolov8.onnx' has been created.''"
proof -
  have load: "YOLO demo_library pytorch_model_file [''model.pt'' \<mapsto> ''checkpoint'']
                = Returns ''model.pt''"
    by (simp add: demo_defs)
  have exp: "export demo_library ''model.pt'' []
               [(''format'', PyStr ''onnx''), (''imgsz'', PyInt 640)]
               [''model.pt'' \<mapsto> ''checkpoint'']
             = (Returns ''model.onnx'',
                [''model.pt'' \<mapsto> ''checkpoint'', ''model.onnx'' \<mapsto> ''onnx graph''])"
    by (simp add: demo_defs)
  from exp banner_names_the_constant [OF load exp] show ?thesis by simp
qed

end
